theory Spec2Isabelle
  imports Complex_Main
begin

section \<open>Values of the Python program\<close>

text \<open>
  The script of \<^verbatim>\<open>src/example.py\<close> is dynamically typed: every value it reads comes out
  of \<^verbatim>\<open>response.json()\<close>. A float is represented by the rational it denotes, or by one
  of the three special values the JSON reader accepts. A dict is an association list
  read with \<open>map_of\<close>.
\<close>

datatype pyfloat = Finite rat | PosInfinity | NegInfinity | NaN

datatype json =
    JNull
  | JBool bool
  | JInt int
  | JFloat pyfloat
  | JStr string
  | JArr "json list"
  | JObj "(string \<times> json) list"

text \<open>
  Exceptions. \<open>Exception msg\<close> is the script's own \<^verbatim>\<open>raise Exception(msg)\<close>; the
  others are raised by Python's built-in operations; \<open>External\<close> is whatever a
  collaborator (HTTP client, RPC client, base64 and transaction libraries) raises.
\<close>

datatype exn =
    Exception string
  | AttributeError
  | KeyError string
  | TypeError
  | ValueError
  | OverflowError
  | External string

subsection \<open>Built-in operations on values\<close>

text \<open>\<^verbatim>\<open>x.get(key, default)\<close>: only a dict has the method.\<close>

fun py_get :: "json \<Rightarrow> string \<Rightarrow> json \<Rightarrow> exn + json" where
  "py_get (JObj kvs) key dflt = Inr (case map_of kvs key of None \<Rightarrow> dflt | Some v \<Rightarrow> v)"
| "py_get _ key dflt = Inl AttributeError"

text \<open>\<^verbatim>\<open>x[key]\<close> with a string key: a missing key of a dict is a KeyError, any other
  value cannot be indexed by a string.\<close>

fun py_getitem :: "json \<Rightarrow> string \<Rightarrow> exn + json" where
  "py_getitem (JObj kvs) key = (case map_of kvs key of None \<Rightarrow> Inl (KeyError key) | Some v \<Rightarrow> Inr v)"
| "py_getitem _ key = Inl TypeError"

text \<open>\<^verbatim>\<open>for option in x\<close>: a list gives its elements, a dict its keys, a string its
  characters; nothing else is iterable.\<close>

fun py_iter :: "json \<Rightarrow> exn + json list" where
  "py_iter (JArr xs) = Inr xs"
| "py_iter (JObj kvs) = Inr (map (\<lambda>kv. JStr (fst kv)) kvs)"
| "py_iter (JStr s) = Inr (map (\<lambda>c. JStr [c]) s)"
| "py_iter _ = Inl TypeError"

text \<open>Truth value of a value, as \<^verbatim>\<open>not x\<close> tests it.\<close>

fun py_truthy :: "json \<Rightarrow> bool" where
  "py_truthy JNull = False"
| "py_truthy (JBool b) = b"
| "py_truthy (JInt n) = (n \<noteq> 0)"
| "py_truthy (JFloat f) = (f \<noteq> Finite 0)"
| "py_truthy (JStr s) = (s \<noteq> [])"
| "py_truthy (JArr xs) = (xs \<noteq> [])"
| "py_truthy (JObj kvs) = (kvs \<noteq> [])"

subsection \<open>\<^verbatim>\<open>int(x)\<close> and \<^verbatim>\<open>str(n)\<close>\<close>

text \<open>
  \<^verbatim>\<open>int\<close> of a string reads ASCII text: optional white space around, an optional sign,
  decimal digits with single underscores allowed between digits. A string with any
  other character is a ValueError here; CPython also accepts non-ASCII decimal digits
  and white space, which a byte string does not represent. The limit that recent
  CPython versions put on the number of digits (4300 by default) is left out.
\<close>

definition is_space :: "char \<Rightarrow> bool" where
  "is_space c = (c \<in> set [CHR '' '', CHR 0x09, CHR 0x0A, CHR 0x0B, CHR 0x0C, CHR 0x0D])"

definition digit_val :: "char \<Rightarrow> nat option" where
  "digit_val c =
     (let n = (of_char c :: nat) in if 48 \<le> n \<and> n \<le> 57 then Some (n - 48) else None)"

fun more_digits :: "nat \<Rightarrow> string \<Rightarrow> nat \<times> string" where
  "more_digits acc [] = (acc, [])"
| "more_digits acc (c # cs) =
     (case digit_val c of
        Some d \<Rightarrow> more_digits (10 * acc + d) cs
      | None \<Rightarrow>
         (if c = CHR ''_'' then
            (case cs of
               [] \<Rightarrow> (acc, c # cs)
             | c' # cs' \<Rightarrow>
                (case digit_val c' of
                   Some d \<Rightarrow> more_digits (10 * acc + d) cs'
                 | None \<Rightarrow> (acc, c # cs)))
          else (acc, c # cs)))"

definition int_of_str :: "string \<Rightarrow> exn + int" where
  "int_of_str s =
     (let s1 = dropWhile is_space s;
          neg = (case s1 of [] \<Rightarrow> False | c # cs \<Rightarrow> c = CHR ''-'');
          s2 = (case s1 of [] \<Rightarrow> []
                | c # cs \<Rightarrow> if c = CHR ''-'' \<or> c = CHR ''+'' then cs else s1)
      in case s2 of
           [] \<Rightarrow> Inl ValueError
         | c # cs \<Rightarrow>
            (case digit_val c of
               None \<Rightarrow> Inl ValueError
             | Some d \<Rightarrow>
                (case more_digits d cs of
                   (n, rest) \<Rightarrow>
                     if dropWhile is_space rest = []
                     then Inr (if neg then - int n else int n)
                     else Inl ValueError)))"

definition trunc_rat :: "rat \<Rightarrow> int" where
  "trunc_rat q = (if q < 0 then - \<lfloor>- q\<rfloor> else \<lfloor>q\<rfloor>)"

fun py_int :: "json \<Rightarrow> exn + int" where
  "py_int (JInt n) = Inr n"
| "py_int (JBool b) = Inr (if b then 1 else 0)"
| "py_int (JFloat (Finite q)) = Inr (trunc_rat q)"
| "py_int (JFloat NaN) = Inl ValueError"
| "py_int (JFloat _) = Inl OverflowError"
| "py_int (JStr s) = int_of_str s"
| "py_int _ = Inl TypeError"

fun str_nat :: "nat \<Rightarrow> string" where
  "str_nat n =
     (if n < 10 then [''0123456789'' ! n]
      else str_nat (n div 10) @ [''0123456789'' ! (n mod 10)])"

declare str_nat.simps [simp del]

definition py_str :: "int \<Rightarrow> string" where
  "py_str n = (if n < 0 then CHR ''-'' # str_nat (nat (- n)) else str_nat (nat n))"

section \<open>The collaborators and the trace of their invocations\<close>

text \<open>
  A \<^verbatim>\<open>requests.Response\<close> as the script uses it: its status code and what
  \<^verbatim>\<open>.json()\<close> gives (the parsed body, or the exception of a body that is not JSON).
\<close>

record response =
  status_code :: int
  json_body :: "exn + json"

type_synonym params = "(string \<times> json) list"
type_synonym bytes = string
type_synonym transaction = string
type_synonym signature = string

text \<open>The dict returned by \<^verbatim>\<open>_parse_402_response\<close>: exactly three keys.\<close>

record payment_info =
  token :: json
  amount :: json
  network :: json

text \<open>
  Every invocation of a collaborator is recorded, in order: the HTTP calls with their
  arguments (\<open>None\<close> for a keyword argument that is not passed), the two RPC calls of
  the swap, and the calls of the two payment methods of the class, whose bodies are
  placeholders in the source.
\<close>

datatype event =
    HttpGet string "params option" "params option"
  | HttpPost string json
  | RpcSendTransaction transaction
  | RpcConfirmTransaction signature
  | CreatePaymentTransaction payment_info
  | SendTransaction "transaction option"

type_synonym trace = "event list"

text \<open>
  What the outside world answers. Each network answer may depend on everything that
  was invoked before it, so any run of the script is the run of some \<open>env\<close>.
  \<open>wallet_address\<close> and \<open>keypair\<close> are the two attributes set by \<^verbatim>\<open>__init__\<close>.
  The base64 decoder and the two operations of the transaction library are functions
  of their arguments that may raise; they belong to libraries, not to the script, and
  are taken as they come.
\<close>

record env =
  wallet_address :: string
  keypair :: string
  http_get :: "trace \<Rightarrow> string \<Rightarrow> params option \<Rightarrow> params option \<Rightarrow> exn + response"
  http_post :: "trace \<Rightarrow> string \<Rightarrow> json \<Rightarrow> exn + response"
  b64decode :: "json \<Rightarrow> exn + bytes"
  transaction_from_bytes :: "bytes \<Rightarrow> exn + transaction"
  transaction_sign :: "transaction \<Rightarrow> string \<Rightarrow> exn + transaction"
  client_send_transaction :: "trace \<Rightarrow> transaction \<Rightarrow> exn + signature"
  client_confirm_transaction :: "trace \<Rightarrow> signature \<Rightarrow> exn + unit"

definition requests_get ::
  "env \<Rightarrow> string \<Rightarrow> params option \<Rightarrow> params option \<Rightarrow> trace \<Rightarrow> (exn + response) \<times> trace" where
  "requests_get e url ps hs t = (http_get e t url ps hs, t @ [HttpGet url ps hs])"

definition requests_post ::
  "env \<Rightarrow> string \<Rightarrow> json \<Rightarrow> trace \<Rightarrow> (exn + response) \<times> trace" where
  "requests_post e url body t = (http_post e t url body, t @ [HttpPost url body])"

definition send_transaction_rpc ::
  "env \<Rightarrow> transaction \<Rightarrow> trace \<Rightarrow> (exn + signature) \<times> trace" where
  "send_transaction_rpc e tx t = (client_send_transaction e t tx, t @ [RpcSendTransaction tx])"

definition confirm_transaction_rpc ::
  "env \<Rightarrow> signature \<Rightarrow> trace \<Rightarrow> (exn + unit) \<times> trace" where
  "confirm_transaction_rpc e sg t =
     (client_confirm_transaction e t sg, t @ [RpcConfirmTransaction sg])"

section \<open>The class \<^verbatim>\<open>X402PaymentHandler\<close>\<close>

text \<open>Writes to standard output (\<^verbatim>\<open>print\<close>) are left out: they neither raise nor reach
  a collaborator.\<close>

definition MOLTYDEX_API :: string where
  "MOLTYDEX_API = ''https://api.moltydex.com''"

definition SOL_MINT :: string where
  "SOL_MINT = ''So11111111111111111111111111111111111111112''"

subsection \<open>\<^verbatim>\<open>_parse_402_response\<close>\<close>

fun find_solana :: "json list \<Rightarrow> exn + payment_info" where
  "find_solana [] = Inl (Exception ''No Solana payment option found'')"
| "find_solana (option # rest) =
     (case py_get option ''scheme'' JNull of
        Inl e \<Rightarrow> Inl e
      | Inr scheme \<Rightarrow>
         if scheme = JStr ''solana'' then
           (case py_getitem option ''token'' of
              Inl e \<Rightarrow> Inl e
            | Inr tok \<Rightarrow>
               (case py_getitem option ''amount'' of
                  Inl e \<Rightarrow> Inl e
                | Inr amt \<Rightarrow>
                   (case py_get option ''network'' (JStr ''mainnet'') of
                      Inl e \<Rightarrow> Inl e
                    | Inr net \<Rightarrow> Inr \<lparr>token = tok, amount = amt, network = net\<rparr>)))
         else find_solana rest)"

definition parse_402_response :: "response \<Rightarrow> exn + payment_info" where
  "parse_402_response r =
     (case json_body r of
        Inl e \<Rightarrow> Inl e
      | Inr payment_data \<Rightarrow>
         (case py_get payment_data ''accepts'' (JArr []) of
            Inl e \<Rightarrow> Inl e
          | Inr accepts \<Rightarrow>
             (case py_iter accepts of
                Inl e \<Rightarrow> Inl e
              | Inr options \<Rightarrow> find_solana options)))"

subsection \<open>\<^verbatim>\<open>_check_balance\<close>\<close>

definition balance_url :: string where
  "balance_url = MOLTYDEX_API @ ''/api/balance''"

definition balance_params :: "env \<Rightarrow> json \<Rightarrow> params" where
  "balance_params e token_address =
     [(''wallet_address'', JStr (wallet_address e)), (''token_mint'', token_address)]"

definition check_balance :: "env \<Rightarrow> json \<Rightarrow> trace \<Rightarrow> (exn + int) \<times> trace" where
  "check_balance e token_address t =
     (case requests_get e balance_url (Some (balance_params e token_address)) None t of
        (Inl x, t1) \<Rightarrow> (Inl x, t1)
      | (Inr resp, t1) \<Rightarrow>
         (case json_body resp of
            Inl x \<Rightarrow> (Inl x, t1)
          | Inr data \<Rightarrow>
             (case py_get data ''balance'' (JInt 0) of
                Inl x \<Rightarrow> (Inl x, t1)
              | Inr b \<Rightarrow> (py_int b, t1))))"

subsection \<open>\<^verbatim>\<open>_swap_tokens\<close>\<close>

definition quote_url :: string where
  "quote_url = MOLTYDEX_API @ ''/api/quote''"

definition swap_url :: string where
  "swap_url = MOLTYDEX_API @ ''/api/swap/build''"

definition quote_params :: "json \<Rightarrow> json \<Rightarrow> int \<Rightarrow> params" where
  "quote_params input_token output_token amt =
     [(''input_mint'', input_token), (''output_mint'', output_token),
      (''amount'', JStr (py_str amt)), (''slippage_bps'', JStr ''50'')]"

definition swap_data :: "env \<Rightarrow> json \<Rightarrow> json \<Rightarrow> int \<Rightarrow> json" where
  "swap_data e input_token output_token amt =
     JObj [(''wallet_address'', JStr (wallet_address e)), (''input_mint'', input_token),
           (''output_mint'', output_token), (''amount'', JStr (py_str amt)),
           (''slippage_bps'', JStr ''50'')]"

text \<open>
  Lines 118 to 143 of \<^verbatim>\<open>_swap_tokens\<close>, after the quote has been accepted: build the
  swap, decode and sign it, send it, wait for its confirmation. Constructing the RPC
  client (\<^verbatim>\<open>Client(SOLANA_RPC)\<close>) invokes nothing. The value returned by
  \<^verbatim>\<open>confirm_transaction\<close> is not looked at: only an exception stops the method.
\<close>

definition build_and_submit ::
  "env \<Rightarrow> json \<Rightarrow> json \<Rightarrow> int \<Rightarrow> trace \<Rightarrow> (exn + bool) \<times> trace" where
  "build_and_submit e input_token output_token amt t =
     (case requests_post e swap_url (swap_data e input_token output_token amt) t of
        (Inl x, t1) \<Rightarrow> (Inl x, t1)
      | (Inr swap_response, t1) \<Rightarrow>
         (case json_body swap_response of
            Inl x \<Rightarrow> (Inl x, t1)
          | Inr swap_result \<Rightarrow>
             (case py_getitem swap_result ''transaction'' of
                Inl x \<Rightarrow> (Inl x, t1)
              | Inr tx_base64 \<Rightarrow>
                 (case b64decode e tx_base64 of
                    Inl x \<Rightarrow> (Inl x, t1)
                  | Inr tx_bytes \<Rightarrow>
                     (case transaction_from_bytes e tx_bytes of
                        Inl x \<Rightarrow> (Inl x, t1)
                      | Inr tx \<Rightarrow>
                         (case transaction_sign e tx (keypair e) of
                            Inl x \<Rightarrow> (Inl x, t1)
                          | Inr signed \<Rightarrow>
                             (case send_transaction_rpc e signed t1 of
                                (Inl x, t2) \<Rightarrow> (Inl x, t2)
                              | (Inr sg, t2) \<Rightarrow>
                                 (case confirm_transaction_rpc e sg t2 of
                                    (Inl x, t3) \<Rightarrow> (Inl x, t3)
                                  | (Inr u, t3) \<Rightarrow> (Inr True, t3)))))))))"

definition swap_tokens ::
  "env \<Rightarrow> json \<Rightarrow> json \<Rightarrow> int \<Rightarrow> trace \<Rightarrow> (exn + bool) \<times> trace" where
  "swap_tokens e input_token output_token amt t =
     (case requests_get e quote_url (Some (quote_params input_token output_token amt)) None t of
        (Inl x, t1) \<Rightarrow> (Inl x, t1)
      | (Inr quote_response, t1) \<Rightarrow>
         (case json_body quote_response of
            Inl x \<Rightarrow> (Inl x, t1)
          | Inr quote \<Rightarrow>
             (case py_get quote ''output_amount'' JNull of
                Inl x \<Rightarrow> (Inl x, t1)
              | Inr out \<Rightarrow>
                 if \<not> py_truthy out then (Inr False, t1)
                 else build_and_submit e input_token output_token amt t1)))"

subsection \<open>The two payment placeholders\<close>

definition create_payment_transaction ::
  "payment_info \<Rightarrow> trace \<Rightarrow> transaction option \<times> trace" where
  "create_payment_transaction info t = (None, t @ [CreatePaymentTransaction info])"

definition send_transaction :: "transaction option \<Rightarrow> trace \<Rightarrow> string \<times> trace" where
  "send_transaction tx t = (''transaction_signature'', t @ [SendTransaction tx])"

subsection \<open>\<^verbatim>\<open>handle_402_response\<close>\<close>

definition payment_headers :: "string \<Rightarrow> payment_info \<Rightarrow> params" where
  "payment_headers payment_signature info =
     [(''X-Payment'', JStr payment_signature),
      (''X-Payment-Amount'', amount info),
      (''X-Payment-Token'', token info)]"

text \<open>Lines 61 to 72: build the payment, send it, retry the request.\<close>

definition pay_and_retry ::
  "env \<Rightarrow> payment_info \<Rightarrow> string \<Rightarrow> trace \<Rightarrow> (exn + response) \<times> trace" where
  "pay_and_retry e info original_request_url t =
     (case create_payment_transaction info t of
        (payment_tx, t1) \<Rightarrow>
          (case send_transaction payment_tx t1 of
             (payment_signature, t2) \<Rightarrow>
               requests_get e original_request_url None
                 (Some (payment_headers payment_signature info)) t2))"

definition handle_402_response ::
  "env \<Rightarrow> response \<Rightarrow> string \<Rightarrow> trace \<Rightarrow> (exn + response) \<times> trace" where
  "handle_402_response e r original_request_url t =
     (if status_code r \<noteq> 402 then (Inr r, t)
      else
        (case parse_402_response r of
           Inl x \<Rightarrow> (Inl x, t)
         | Inr info \<Rightarrow>
            (case check_balance e (token info) t of
               (Inl x, t1) \<Rightarrow> (Inl x, t1)
             | (Inr balance, t1) \<Rightarrow>
                (case py_int (amount info) of
                   Inl x \<Rightarrow> (Inl x, t1)
                 | Inr required_amount \<Rightarrow>
                    if balance < required_amount then
                      (case swap_tokens e (JStr SOL_MINT) (token info) required_amount t1 of
                         (Inl x, t2) \<Rightarrow> (Inl x, t2)
                       | (Inr swap_result, t2) \<Rightarrow>
                          if \<not> swap_result
                          then (Inl (Exception ''Failed to swap tokens''), t2)
                          else pay_and_retry e info original_request_url t2)
                    else pay_and_retry e info original_request_url t1))))"

section \<open>Reading a trace\<close>

text \<open>
  The kinds of invocation the properties speak of. Only the quote and balance calls
  pass \<^verbatim>\<open>params=\<close>, and only the retried request passes \<^verbatim>\<open>headers=\<close>, so a quote
  request is told from a retried request even when the caller's URL is the quote URL.
\<close>

fun is_quote_request :: "event \<Rightarrow> bool" where
  "is_quote_request (HttpGet url (Some ps) None) = (url = quote_url)"
| "is_quote_request _ = False"

fun is_swap_submission :: "event \<Rightarrow> bool" where
  "is_swap_submission (RpcSendTransaction tx) = True"
| "is_swap_submission _ = False"

fun is_payment_submission :: "event \<Rightarrow> bool" where
  "is_payment_submission (SendTransaction tx) = True"
| "is_payment_submission _ = False"

fun is_retried_request :: "event \<Rightarrow> bool" where
  "is_retried_request (HttpGet url ps (Some hs)) = True"
| "is_retried_request _ = False"

text \<open>The \<^verbatim>\<open>amount\<close> parameter of each quote request of a trace, in order.\<close>

fun amount_param :: "event \<Rightarrow> json option" where
  "amount_param (HttpGet url (Some ps) hs) = map_of ps ''amount''"
| "amount_param _ = None"

definition quote_amounts :: "trace \<Rightarrow> json option list" where
  "quote_amounts t = map amount_param (filter is_quote_request t)"

section \<open>A concrete run\<close>

text \<open>
  The 402 body of the documented format with one Solana option, and a world whose
  balance and quote services answer with the given JSON bodies and in which every other
  collaborator succeeds.
\<close>

definition example_body :: json where
  "example_body =
     JObj [(''accepts'',
            JArr [JObj [(''scheme'', JStr ''solana''), (''token'', JStr ''TOKEN_MINT''),
                        (''amount'', JStr ''1000000'')]])]"

definition example_402 :: response where
  "example_402 = \<lparr>status_code = 402, json_body = Inr example_body\<rparr>"

definition example_info :: payment_info where
  "example_info =
     \<lparr>token = JStr ''TOKEN_MINT'', amount = JStr ''1000000'', network = JStr ''mainnet''\<rparr>"

definition ok_json :: "json \<Rightarrow> exn + response" where
  "ok_json j = Inr \<lparr>status_code = 200, json_body = Inr j\<rparr>"

definition example_env :: "json \<Rightarrow> json \<Rightarrow> env" where
  "example_env bal quote =
     \<lparr>wallet_address = ''WALLET'', keypair = ''KEYPAIR'',
      http_get = (\<lambda>t url ps hs.
         if url = balance_url then ok_json bal
         else if url = quote_url then ok_json quote
         else ok_json (JObj [(''data'', JStr ''paid'')])),
      http_post = (\<lambda>t url body. ok_json (JObj [(''transaction'', JStr ''dHg='')])),
      b64decode = (\<lambda>j. case j of JStr s \<Rightarrow> Inr s | _ \<Rightarrow> Inl TypeError),
      transaction_from_bytes = (\<lambda>b. Inr b),
      transaction_sign = (\<lambda>tx k. Inr (tx @ k)),
      client_send_transaction = (\<lambda>t tx. Inr ''SWAP_SIG''),
      client_confirm_transaction = (\<lambda>t sg. Inr ())\<rparr>"

definition example_url :: string where
  "example_url = ''https://example-api.com/data''"

definition shortfall_env :: env where
  "shortfall_env =
     example_env (JObj [(''balance'', JStr ''500000'')]) (JObj [(''output_amount'', JStr ''990000'')])"

definition funded_env :: env where
  "funded_env =
     example_env (JObj [(''balance'', JStr ''2000000'')]) (JObj [(''output_amount'', JStr ''990000'')])"

definition no_quote_env :: env where
  "no_quote_env = example_env (JObj [(''balance'', JStr ''500000'')]) (JObj [])"

definition no_balance_env :: env where
  "no_balance_env = example_env (JObj []) (JObj [(''output_amount'', JStr ''990000'')])"

definition example_balance_request :: event where
  "example_balance_request =
     HttpGet ''https://api.moltydex.com/api/balance''
       (Some [(''wallet_address'', JStr ''WALLET''), (''token_mint'', JStr ''TOKEN_MINT'')]) None"

definition example_quote_request :: event where
  "example_quote_request =
     HttpGet ''https://api.moltydex.com/api/quote''
       (Some [(''input_mint'', JStr ''So11111111111111111111111111111111111111112''),
              (''output_mint'', JStr ''TOKEN_MINT''), (''amount'', JStr ''1000000''),
              (''slippage_bps'', JStr ''50'')]) None"

definition example_retry :: event where
  "example_retry =
     HttpGet ''https://example-api.com/data'' None
       (Some [(''X-Payment'', JStr ''transaction_signature''),
              (''X-Payment-Amount'', JStr ''1000000''),
              (''X-Payment-Token'', JStr ''TOKEN_MINT'')])"

text \<open>Payment options for other 402 bodies.\<close>

definition ethereum_option :: json where
  "ethereum_option =
     JObj [(''scheme'', JStr ''ethereum''), (''token'', JStr ''USDC''), (''amount'', JStr ''7'')]"

definition solana_option_plain :: json where
  "solana_option_plain =
     JObj [(''scheme'', JStr ''solana''), (''token'', JStr ''MINT_A''), (''amount'', JStr ''10'')]"

definition solana_option_devnet :: json where
  "solana_option_devnet =
     JObj [(''scheme'', JStr ''solana''), (''token'', JStr ''MINT_B''), (''amount'', JStr ''20''),
           (''network'', JStr ''devnet'')]"

definition response_402 :: "json list \<Rightarrow> response" where
  "response_402 options = \<lparr>status_code = 402, json_body = Inr (JObj [(''accepts'', JArr options)])\<rparr>"

section \<open>Properties\<close>

subsection \<open>The shape of the trace of each method\<close>

lemma check_balance_trace:
  "snd (check_balance e tok t) = t @ [HttpGet balance_url (Some (balance_params e tok)) None]"
  by (simp add: check_balance_def requests_get_def split: sum.splits)

lemma pay_and_retry_trace:
  "snd (pay_and_retry e info url t) =
     t @ [CreatePaymentTransaction info, SendTransaction None,
          HttpGet url None (Some (payment_headers ''transaction_signature'' info))]"
  by (simp add: pay_and_retry_def create_payment_transaction_def send_transaction_def
      requests_get_def)

lemma build_and_submit_shape:
  "\<exists>evs. snd (build_and_submit e i ot a t) = t @ HttpPost swap_url (swap_data e i ot a) # evs
     \<and> (evs = [] \<or> (\<exists>tx. evs = [RpcSendTransaction tx])
          \<or> (\<exists>tx sg. evs = [RpcSendTransaction tx, RpcConfirmTransaction sg]))"
  by (simp add: build_and_submit_def requests_post_def send_transaction_rpc_def
      confirm_transaction_rpc_def split: sum.splits)

lemma swap_tokens_cases:
  "snd (swap_tokens e i ot a t) = t @ [HttpGet quote_url (Some (quote_params i ot a)) None]
   \<or> snd (swap_tokens e i ot a t) =
       snd (build_and_submit e i ot a (t @ [HttpGet quote_url (Some (quote_params i ot a)) None]))"
  by (simp add: swap_tokens_def requests_get_def split: sum.splits)

lemma swap_tokens_shape:
  "\<exists>evs. snd (swap_tokens e i ot a t) = t @ HttpGet quote_url (Some (quote_params i ot a)) None # evs
     \<and> filter is_quote_request evs = [] \<and> length (filter is_swap_submission evs) \<le> 1
     \<and> filter is_payment_submission evs = [] \<and> filter is_retried_request evs = []"
proof -
  let ?q = "HttpGet quote_url (Some (quote_params i ot a)) None"
  obtain evs where b: "snd (build_and_submit e i ot a (t @ [?q])) =
       (t @ [?q]) @ HttpPost swap_url (swap_data e i ot a) # evs"
    and sh: "evs = [] \<or> (\<exists>tx. evs = [RpcSendTransaction tx])
          \<or> (\<exists>tx sg. evs = [RpcSendTransaction tx, RpcConfirmTransaction sg])"
    using build_and_submit_shape by blast
  from swap_tokens_cases [of e i ot a t] show ?thesis
  proof
    assume "snd (swap_tokens e i ot a t) = t @ [?q]"
    then show ?thesis by simp
  next
    assume "snd (swap_tokens e i ot a t) = snd (build_and_submit e i ot a (t @ [?q]))"
    with b have "snd (swap_tokens e i ot a t) = t @ ?q # HttpPost swap_url (swap_data e i ot a) # evs"
      by simp
    moreover from sh have "filter is_quote_request (HttpPost swap_url (swap_data e i ot a) # evs) = []
      \<and> length (filter is_swap_submission (HttpPost swap_url (swap_data e i ot a) # evs)) \<le> 1
      \<and> filter is_payment_submission (HttpPost swap_url (swap_data e i ot a) # evs) = []
      \<and> filter is_retried_request (HttpPost swap_url (swap_data e i ot a) # evs) = []"
      by auto
    ultimately show ?thesis by blast
  qed
qed

lemma find_solana_none:
  "\<forall>opt\<in>set options. \<exists>entry. opt = JObj entry \<and> map_of entry ''scheme'' \<noteq> Some (JStr ''solana'')
   \<Longrightarrow> find_solana options = Inl (Exception ''No Solana payment option found'')"
  by (induction options) (auto split: option.splits)

lemma find_solana_skip:
  "\<forall>opt\<in>set before. \<exists>entry. opt = JObj entry \<and> map_of entry ''scheme'' \<noteq> Some (JStr ''solana'')
   \<Longrightarrow> find_solana (before @ rest) = find_solana rest"
  by (induction before) (auto split: option.splits)

lemma handle_sufficient:
  assumes "status_code r = 402" and "parse_402_response r = Inr info"
    and "check_balance e (token info) t = (Inr balance, t1)"
    and "py_int (amount info) = Inr required_amount"
    and "required_amount \<le> balance"
  shows "handle_402_response e r url t = pay_and_retry e info url t1"
  using assms by (simp add: handle_402_response_def)

lemma handle_insufficient:
  assumes "status_code r = 402" and "parse_402_response r = Inr info"
    and "check_balance e (token info) t = (Inr balance, t1)"
    and "py_int (amount info) = Inr required_amount"
    and "balance < required_amount"
    and "swap_tokens e (JStr SOL_MINT) (token info) required_amount t1 = (sw, t2)"
  shows "handle_402_response e r url t =
     (case sw of Inl x \<Rightarrow> (Inl x, t2)
      | Inr swap_result \<Rightarrow>
          if swap_result then pay_and_retry e info url t2
          else (Inl (Exception ''Failed to swap tokens''), t2))"
  using assms by (simp add: handle_402_response_def split: sum.splits)

lemma handle_trace_cases:
  assumes "status_code r = 402" and "parse_402_response r = Inr info"
  shows "\<exists>mid. filter is_retried_request mid = [] \<and> filter is_payment_submission mid = []
      \<and> length (filter is_swap_submission mid) \<le> 1
      \<and> ((snd (handle_402_response e r url t) =
             t @ HttpGet balance_url (Some (balance_params e (token info))) None # mid
           \<and> (\<exists>x. fst (handle_402_response e r url t) = Inl x))
          \<or> snd (handle_402_response e r url t) =
             t @ HttpGet balance_url (Some (balance_params e (token info))) None # mid @
               [CreatePaymentTransaction info, SendTransaction None,
                HttpGet url None (Some (payment_headers ''transaction_signature'' info))])"
proof -
  let ?B = "HttpGet balance_url (Some (balance_params e (token info))) None"
  let ?h = "handle_402_response e r url t"
  obtain cb t1 where cb: "check_balance e (token info) t = (cb, t1)"
    by (cases "check_balance e (token info) t")
  have t1: "t1 = t @ [?B]"
    using check_balance_trace [of e "token info" t] cb by simp
  show ?thesis
  proof (cases cb)
    case (Inl x)
    with assms cb have "?h = (Inl x, t1)"
      by (simp add: handle_402_response_def)
    with t1 have "snd ?h = t @ ?B # [] \<and> (\<exists>x. fst ?h = Inl x)" by simp
    then show ?thesis by (intro exI [of _ "[]"]) simp
  next
    case (Inr balance)
    with cb have cb': "check_balance e (token info) t = (Inr balance, t1)" by simp
    show ?thesis
    proof (cases "py_int (amount info)")
      case (Inl x)
      with assms cb' have "?h = (Inl x, t1)"
        by (simp add: handle_402_response_def)
      with t1 have "snd ?h = t @ ?B # [] \<and> (\<exists>x. fst ?h = Inl x)" by simp
      then show ?thesis by (intro exI [of _ "[]"]) simp
    next
      case (Inr required_amount)
      note req = this
      show ?thesis
      proof (cases "balance < required_amount")
        case False
        then have "?h = pay_and_retry e info url t1"
          using handle_sufficient [OF assms cb' req] by simp
        with t1 have "snd ?h = t @ ?B # [] @
               [CreatePaymentTransaction info, SendTransaction None,
                HttpGet url None (Some (payment_headers ''transaction_signature'' info))]"
          by (simp add: pay_and_retry_trace)
        then show ?thesis by (intro exI [of _ "[]"]) simp
      next
        case True
        obtain sw t2 where sw: "swap_tokens e (JStr SOL_MINT) (token info) required_amount t1 = (sw, t2)"
          by (cases "swap_tokens e (JStr SOL_MINT) (token info) required_amount t1")
        obtain evs where t2: "t2 = t1 @ HttpGet quote_url
              (Some (quote_params (JStr SOL_MINT) (token info) required_amount)) None # evs"
          and f: "length (filter is_swap_submission evs) \<le> 1"
            "filter is_payment_submission evs = []" "filter is_retried_request evs = []"
          using swap_tokens_shape [of e "JStr SOL_MINT" "token info" required_amount t1] sw
          by auto
        let ?mid = "HttpGet quote_url
              (Some (quote_params (JStr SOL_MINT) (token info) required_amount)) None # evs"
        have m: "filter is_retried_request ?mid = [] \<and> filter is_payment_submission ?mid = []
            \<and> length (filter is_swap_submission ?mid) \<le> 1"
          using f by simp
        have h: "?h = (case sw of Inl x \<Rightarrow> (Inl x, t2)
            | Inr swap_result \<Rightarrow>
                if swap_result then pay_and_retry e info url t2
                else (Inl (Exception ''Failed to swap tokens''), t2))"
          by (rule handle_insufficient [OF assms cb' req True sw])
        have "(snd ?h = t @ ?B # ?mid \<and> (\<exists>x. fst ?h = Inl x))
          \<or> snd ?h = t @ ?B # ?mid @
               [CreatePaymentTransaction info, SendTransaction None,
                HttpGet url None (Some (payment_headers ''transaction_signature'' info))]"
          using h t1 t2 by (auto simp: pay_and_retry_trace split: sum.splits)
        with m show ?thesis by blast
      qed
    qed
  qed
qed

subsection \<open>The concrete runs, evaluated\<close>

lemmas run_defs =
  shortfall_env_def funded_env_def no_quote_env_def no_balance_env_def
  example_env_def ok_json_def example_402_def example_body_def example_info_def example_url_def
  example_balance_request_def example_quote_request_def example_retry_def
  handle_402_response_def parse_402_response_def check_balance_def swap_tokens_def
  build_and_submit_def pay_and_retry_def create_payment_transaction_def send_transaction_def
  requests_get_def requests_post_def send_transaction_rpc_def confirm_transaction_rpc_def
  balance_url_def quote_url_def swap_url_def MOLTYDEX_API_def SOL_MINT_def
  balance_params_def quote_params_def swap_data_def payment_headers_def
  int_of_str_def is_space_def digit_val_def py_str_def str_nat.simps quote_amounts_def

lemma example_parse: "parse_402_response example_402 = Inr example_info"
  by (simp add: run_defs)

lemma example_required: "py_int (amount example_info) = Inr 1000000"
  by (simp add: run_defs)

lemma shortfall_balance:
  "check_balance shortfall_env (token example_info) [] = (Inr 500000, [example_balance_request])"
  by (simp add: run_defs)

lemma shortfall_run:
  "handle_402_response shortfall_env example_402 example_url [] =
     (Inr \<lparr>status_code = 200, json_body = Inr (JObj [(''data'', JStr ''paid'')])\<rparr>,
      [example_balance_request, example_quote_request,
       HttpPost ''https://api.moltydex.com/api/swap/build''
         (JObj [(''wallet_address'', JStr ''WALLET''),
                (''input_mint'', JStr ''So11111111111111111111111111111111111111112''),
                (''output_mint'', JStr ''TOKEN_MINT''), (''amount'', JStr ''1000000''),
                (''slippage_bps'', JStr ''50'')]),
       RpcSendTransaction ''dHg=KEYPAIR'', RpcConfirmTransaction ''SWAP_SIG'',
       CreatePaymentTransaction example_info, SendTransaction None, example_retry])"
  by (simp add: run_defs)

lemmas option_defs =
  ethereum_option_def solana_option_plain_def solana_option_devnet_def response_402_def

lemma example_status: "status_code example_402 = 402"
  by (simp add: example_402_def)

lemma funded_balance:
  "check_balance funded_env (token example_info) [] = (Inr 2000000, [example_balance_request])"
  by (simp add: run_defs)

lemma no_quote_balance:
  "check_balance no_quote_env (token example_info) [] = (Inr 500000, [example_balance_request])"
  by (simp add: run_defs)

subsection \<open>The claims\<close>

text \<open>
  Claim C1, as the code has it. When the balance is below the required amount, the call
  issues exactly one quote request, and its \<^verbatim>\<open>amount\<close> parameter is the decimal text of
  the whole required amount, whatever the balance is.
\<close>

theorem quote_for_required_amount:
  assumes "status_code r = 402" and "parse_402_response r = Inr info"
    and "check_balance e (token info) t = (Inr balance, t1)"
    and "py_int (amount info) = Inr required_amount"
    and "balance < required_amount"
  shows "filter is_quote_request (drop (length t) (snd (handle_402_response e r url t))) =
           [HttpGet quote_url
              (Some (quote_params (JStr SOL_MINT) (token info) required_amount)) None]
       \<and> quote_amounts (drop (length t) (snd (handle_402_response e r url t))) =
           [Some (JStr (py_str required_amount))]"
proof -
  let ?Q = "HttpGet quote_url (Some (quote_params (JStr SOL_MINT) (token info) required_amount)) None"
  let ?B = "HttpGet balance_url (Some (balance_params e (token info))) None"
  let ?h = "handle_402_response e r url t"
  have t1: "t1 = t @ [?B]"
    using check_balance_trace [of e "token info" t] assms(3) by simp
  obtain sw t2 where sw: "swap_tokens e (JStr SOL_MINT) (token info) required_amount t1 = (sw, t2)"
    by (cases "swap_tokens e (JStr SOL_MINT) (token info) required_amount t1")
  obtain evs where t2: "t2 = t1 @ ?Q # evs" and f: "filter is_quote_request evs = []"
    using swap_tokens_shape [of e "JStr SOL_MINT" "token info" required_amount t1] sw by auto
  have "snd ?h = t2 \<or> snd ?h = t2 @ [CreatePaymentTransaction info, SendTransaction None,
          HttpGet url None (Some (payment_headers ''transaction_signature'' info))]"
    using handle_insufficient [OF assms sw, of url]
    by (auto simp: pay_and_retry_trace split: sum.splits)
  then have "filter is_quote_request (drop (length t) (snd ?h)) = [?Q]"
    using t1 t2 f by (auto simp: balance_url_def quote_url_def)
  then show ?thesis
    by (simp add: quote_amounts_def quote_params_def)
qed

theorem quote_for_required_amount_witness:
  "status_code example_402 = 402
   \<and> parse_402_response example_402 = Inr example_info
   \<and> check_balance shortfall_env (token example_info) [] = (Inr 500000, [example_balance_request])
   \<and> py_int (amount example_info) = Inr 1000000
   \<and> (500000 :: int) < 1000000
   \<and> filter is_quote_request (snd (handle_402_response shortfall_env example_402 example_url [])) =
       [example_quote_request]
   \<and> quote_amounts (snd (handle_402_response shortfall_env example_402 example_url [])) =
       [Some (JStr ''1000000'')]"
proof -
  have h1: "status_code example_402 = 402" by (simp add: example_402_def)
  have h5: "(500000 :: int) < 1000000" by simp
  show ?thesis
    using quote_for_required_amount [OF h1 example_parse shortfall_balance example_required h5,
        of example_url]
      h1 example_parse shortfall_balance example_required
    by (simp add: example_quote_request_def quote_url_def MOLTYDEX_API_def quote_params_def
        SOL_MINT_def example_info_def py_str_def str_nat.simps)
qed

text \<open>
  Claim C1 as stated asks for the shortfall. With required amount 1000000 and balance
  500000 the one quote request carries \<^verbatim>\<open>amount="1000000"\<close>, not \<^verbatim>\<open>"500000"\<close>.
\<close>

theorem quote_amount_is_not_shortfall:
  "fst (check_balance shortfall_env (JStr ''TOKEN_MINT'') []) = Inr 500000
   \<and> py_int (JStr ''1000000'') = Inr 1000000
   \<and> quote_amounts (snd (handle_402_response shortfall_env example_402 example_url [])) =
       [Some (JStr ''1000000'')]
   \<and> quote_amounts (snd (handle_402_response shortfall_env example_402 example_url [])) \<noteq>
       [Some (JStr (py_str (1000000 - 500000)))]
   \<and> py_str (1000000 - 500000) = ''500000''"
  by (simp add: run_defs)

text \<open>
  Claim C2. A response whose status is not 402 is returned as it is, and the trace is
  the one the call started with: no collaborator is invoked.
\<close>

theorem handle_passthrough:
  "status_code r \<noteq> 402 \<Longrightarrow> handle_402_response e r url t = (Inr r, t)"
  by (simp add: handle_402_response_def)

theorem handle_passthrough_witness:
  "status_code \<lparr>status_code = 200, json_body = Inr JNull\<rparr> \<noteq> 402
   \<and> handle_402_response (example_env JNull JNull) \<lparr>status_code = 200, json_body = Inr JNull\<rparr>
        example_url [] = (Inr \<lparr>status_code = 200, json_body = Inr JNull\<rparr>, [])"
  using handle_passthrough [of "\<lparr>status_code = 200, json_body = Inr JNull\<rparr>"
      "example_env JNull JNull" example_url "[]"]
  by simp

text \<open>
  Claim C3. A 402 response whose \<^verbatim>\<open>accepts\<close> list has no entry with scheme
  \<^verbatim>\<open>"solana"\<close> makes the call fail with the exception "No Solana payment option found",
  and the trace is unchanged: no balance query, no exchange call, no payment.
\<close>

theorem no_solana_option:
  assumes "status_code r = 402"
    and "json_body r = Inr (JObj body)"
    and "py_get (JObj body) ''accepts'' (JArr []) = Inr (JArr options)"
    and "\<forall>opt\<in>set options. \<exists>entry. opt = JObj entry
           \<and> map_of entry ''scheme'' \<noteq> Some (JStr ''solana'')"
  shows "handle_402_response e r url t = (Inl (Exception ''No Solana payment option found''), t)"
proof -
  have "find_solana options = Inl (Exception ''No Solana payment option found'')"
    using assms(4) by (rule find_solana_none)
  with assms(2,3) have "parse_402_response r = Inl (Exception ''No Solana payment option found'')"
    by (simp add: parse_402_response_def split: option.splits)
  with assms(1) show ?thesis by (simp add: handle_402_response_def)
qed

theorem no_solana_option_witness:
  "status_code (response_402 [ethereum_option]) = 402
   \<and> json_body (response_402 [ethereum_option]) = Inr (JObj [(''accepts'', JArr [ethereum_option])])
   \<and> py_get (JObj [(''accepts'', JArr [ethereum_option])]) ''accepts'' (JArr []) =
        Inr (JArr [ethereum_option])
   \<and> py_get ethereum_option ''scheme'' JNull = Inr (JStr ''ethereum'')
   \<and> handle_402_response shortfall_env (response_402 [ethereum_option]) example_url [] =
        (Inl (Exception ''No Solana payment option found''), [])"
proof -
  have h1: "status_code (response_402 [ethereum_option]) = 402"
    by (simp add: option_defs)
  have h2: "json_body (response_402 [ethereum_option]) =
      Inr (JObj [(''accepts'', JArr [ethereum_option])])"
    by (simp add: option_defs)
  have h3: "py_get (JObj [(''accepts'', JArr [ethereum_option])]) ''accepts'' (JArr []) =
      Inr (JArr [ethereum_option])"
    by simp
  have h4: "\<forall>opt\<in>set [ethereum_option]. \<exists>entry. opt = JObj entry
      \<and> map_of entry ''scheme'' \<noteq> Some (JStr ''solana'')"
    by (simp add: option_defs)
  have h5: "py_get ethereum_option ''scheme'' JNull = Inr (JStr ''ethereum'')"
    by (simp add: option_defs)
  from no_solana_option [OF h1 h2 h3 h4, of shortfall_env example_url "[]"] h1 h2 h3 h5
  show ?thesis by simp
qed

text \<open>
  Claim C4. With a supported entry and a balance at least the required amount, the
  call invokes, after the balance query, the payment construction, the payment
  submission and the retried request, and nothing else: no quote, swap build or swap
  submission.
\<close>

theorem sufficient_balance_skips_exchange:
  assumes "status_code r = 402" and "parse_402_response r = Inr info"
    and "check_balance e (token info) t = (Inr balance, t1)"
    and "py_int (amount info) = Inr required_amount"
    and "required_amount \<le> balance"
  shows "drop (length t) (snd (handle_402_response e r url t)) =
           [HttpGet balance_url (Some (balance_params e (token info))) None,
            CreatePaymentTransaction info, SendTransaction None,
            HttpGet url None (Some (payment_headers ''transaction_signature'' info))]"
proof -
  have "t1 = t @ [HttpGet balance_url (Some (balance_params e (token info))) None]"
    using check_balance_trace [of e "token info" t] assms(3) by simp
  then show ?thesis
    using handle_sufficient [OF assms, of url] by (simp add: pay_and_retry_trace)
qed

theorem sufficient_balance_skips_exchange_witness:
  "status_code example_402 = 402
   \<and> parse_402_response example_402 = Inr example_info
   \<and> check_balance funded_env (token example_info) [] = (Inr 2000000, [example_balance_request])
   \<and> py_int (amount example_info) = Inr 1000000
   \<and> (1000000 :: int) \<le> 2000000
   \<and> snd (handle_402_response funded_env example_402 example_url []) =
       [example_balance_request, CreatePaymentTransaction example_info, SendTransaction None,
        example_retry]"
proof -
  have h5: "(1000000 :: int) \<le> 2000000" by simp
  from sufficient_balance_skips_exchange
         [OF example_status example_parse funded_balance example_required h5, of example_url]
       example_status example_parse funded_balance example_required
  show ?thesis
    by (simp add: example_balance_request_def example_retry_def balance_url_def MOLTYDEX_API_def
        balance_params_def funded_env_def example_env_def example_info_def payment_headers_def
        example_url_def)
qed



text \<open>
  Claim C6. When the quote answer has no output amount (the field is missing or its
  value is false in Python's sense), the call fails with the exception
  "Failed to swap tokens" and the trace ends with the quote request: no swap is built
  or submitted.
\<close>

theorem no_output_amount_fails:
  assumes "status_code r = 402" and "parse_402_response r = Inr info"
    and "check_balance e (token info) t = (Inr balance, t1)"
    and "py_int (amount info) = Inr required_amount"
    and "balance < required_amount"
    and "http_get e t1 quote_url
           (Some (quote_params (JStr SOL_MINT) (token info) required_amount)) None = Inr quote_response"
    and "json_body quote_response = Inr quote"
    and "py_get quote ''output_amount'' JNull = Inr out"
    and "\<not> py_truthy out"
  shows "handle_402_response e r url t =
           (Inl (Exception ''Failed to swap tokens''),
            t1 @ [HttpGet quote_url
                    (Some (quote_params (JStr SOL_MINT) (token info) required_amount)) None])"
proof -
  have "swap_tokens e (JStr SOL_MINT) (token info) required_amount t1 =
      (Inr False, t1 @ [HttpGet quote_url
                    (Some (quote_params (JStr SOL_MINT) (token info) required_amount)) None])"
    using assms(6-9) by (simp add: swap_tokens_def requests_get_def)
  from handle_insufficient [OF assms(1-5) this] show ?thesis by simp
qed

theorem no_output_amount_fails_witness:
  "status_code example_402 = 402
   \<and> parse_402_response example_402 = Inr example_info
   \<and> check_balance no_quote_env (token example_info) [] = (Inr 500000, [example_balance_request])
   \<and> py_int (amount example_info) = Inr 1000000
   \<and> (500000 :: int) < 1000000
   \<and> py_get (JObj []) ''output_amount'' JNull = Inr JNull
   \<and> \<not> py_truthy JNull
   \<and> handle_402_response no_quote_env example_402 example_url [] =
       (Inl (Exception ''Failed to swap tokens''), [example_balance_request, example_quote_request])"
proof -
  have h5: "(500000 :: int) < 1000000" by simp
  have h6: "http_get no_quote_env [example_balance_request] quote_url
      (Some (quote_params (JStr SOL_MINT) (token example_info) 1000000)) None =
      Inr \<lparr>status_code = 200, json_body = Inr (JObj [])\<rparr>"
    by (simp add: run_defs)
  have h7: "json_body \<lparr>status_code = 200, json_body = Inr (JObj [])\<rparr> = Inr (JObj [])"
    by simp
  have h8: "py_get (JObj []) ''output_amount'' JNull = Inr JNull" by simp
  have h9: "\<not> py_truthy JNull" by simp
  from no_output_amount_fails
         [OF example_status example_parse no_quote_balance example_required h5 h6 h7 h8 h9,
          of example_url]
       example_status example_parse no_quote_balance example_required h8
  show ?thesis
    by (simp add: example_quote_request_def quote_url_def MOLTYDEX_API_def quote_params_def
        SOL_MINT_def example_info_def py_str_def str_nat.simps)
qed

text \<open>
  Claim C7. Parsing returns the token and amount of the first entry of the
  \<^verbatim>\<open>accepts\<close> list whose scheme is \<^verbatim>\<open>"solana"\<close>, whatever follows it in the list.
\<close>

theorem first_solana_option_selected:
  assumes "json_body r = Inr (JObj body)"
    and "py_get (JObj body) ''accepts'' (JArr []) = Inr (JArr (before @ JObj entry # later))"
    and "\<forall>opt\<in>set before. \<exists>fs. opt = JObj fs \<and> map_of fs ''scheme'' \<noteq> Some (JStr ''solana'')"
    and "map_of entry ''scheme'' = Some (JStr ''solana'')"
    and "map_of entry ''token'' = Some tok"
    and "map_of entry ''amount'' = Some amt"
  shows "\<exists>info. parse_402_response r = Inr info \<and> token info = tok \<and> amount info = amt"
proof -
  have "find_solana (before @ JObj entry # later) = find_solana (JObj entry # later)"
    using assms(3) by (rule find_solana_skip)
  with assms(1,2,4,5,6) show ?thesis
    by (simp add: parse_402_response_def split: option.splits)
qed

theorem first_solana_option_selected_witness:
  "json_body (response_402 [ethereum_option, solana_option_plain, solana_option_devnet]) =
     Inr (JObj [(''accepts'', JArr [ethereum_option, solana_option_plain, solana_option_devnet])])
   \<and> py_get ethereum_option ''scheme'' JNull = Inr (JStr ''ethereum'')
   \<and> py_get solana_option_plain ''scheme'' JNull = Inr (JStr ''solana'')
   \<and> (\<exists>info. parse_402_response
                 (response_402 [ethereum_option, solana_option_plain, solana_option_devnet]) = Inr info
          \<and> token info = JStr ''MINT_A'' \<and> amount info = JStr ''10'')"
proof -
  let ?r = "response_402 [ethereum_option, solana_option_plain, solana_option_devnet]"
  let ?entry = "[(''scheme'', JStr ''solana''), (''token'', JStr ''MINT_A''), (''amount'', JStr ''10'')]"
  have h1: "json_body ?r =
      Inr (JObj [(''accepts'', JArr [ethereum_option, solana_option_plain, solana_option_devnet])])"
    by (simp add: response_402_def)
  have h2: "py_get (JObj [(''accepts'', JArr [ethereum_option, solana_option_plain, solana_option_devnet])])
      ''accepts'' (JArr []) = Inr (JArr ([ethereum_option] @ JObj ?entry # [solana_option_devnet]))"
    by (simp add: solana_option_plain_def)
  have h3: "\<forall>opt\<in>set [ethereum_option]. \<exists>fs. opt = JObj fs
      \<and> map_of fs ''scheme'' \<noteq> Some (JStr ''solana'')"
    by (simp add: option_defs)
  have h4: "map_of ?entry ''scheme'' = Some (JStr ''solana'')" by simp
  have h5: "map_of ?entry ''token'' = Some (JStr ''MINT_A'')" by simp
  have h6: "map_of ?entry ''amount'' = Some (JStr ''10'')" by simp
  have h7: "py_get ethereum_option ''scheme'' JNull = Inr (JStr ''ethereum'')"
    "py_get solana_option_plain ''scheme'' JNull = Inr (JStr ''solana'')"
    by (simp_all add: option_defs)
  from first_solana_option_selected [OF h1 h2 h3 h4 h5 h6] h1 h7
  show ?thesis by simp
qed

text \<open>
  Claim C8. A call on a 402 response that returns a response has invoked the swap
  submission at most once and the payment submission exactly once.
\<close>

theorem submissions_per_successful_call:
  assumes "status_code r = 402"
    and "handle_402_response e r url t = (Inr resp, t')"
  shows "length (filter is_swap_submission (drop (length t) t')) \<le> 1
       \<and> length (filter is_payment_submission (drop (length t) t')) = 1"
proof (cases "parse_402_response r")
  case (Inl x)
  with assms show ?thesis by (simp add: handle_402_response_def)
next
  case (Inr info)
  let ?B = "HttpGet balance_url (Some (balance_params e (token info))) None"
  let ?P = "[CreatePaymentTransaction info, SendTransaction None,
              HttpGet url None (Some (payment_headers ''transaction_signature'' info))]"
  obtain mid where m: "filter is_payment_submission mid = []"
      "length (filter is_swap_submission mid) \<le> 1"
    and c: "(snd (handle_402_response e r url t) = t @ ?B # mid
              \<and> (\<exists>x. fst (handle_402_response e r url t) = Inl x))
          \<or> snd (handle_402_response e r url t) = t @ ?B # mid @ ?P"
    using handle_trace_cases [OF assms(1) Inr, of e url t] by blast
  from c assms(2) have "t' = t @ ?B # mid @ ?P" by auto
  with m show ?thesis by simp
qed

theorem submissions_per_successful_call_witness:
  "status_code example_402 = 402
   \<and> fst (handle_402_response shortfall_env example_402 example_url []) =
       Inr \<lparr>status_code = 200, json_body = Inr (JObj [(''data'', JStr ''paid'')])\<rparr>
   \<and> length (filter is_swap_submission
               (snd (handle_402_response shortfall_env example_402 example_url []))) \<le> 1
   \<and> length (filter is_payment_submission
               (snd (handle_402_response shortfall_env example_402 example_url []))) = 1"
  using submissions_per_successful_call [OF example_status shortfall_run] example_status
    shortfall_run
  by simp

text \<open>
  Claim C9. The network of the parsed requirement is \<^verbatim>\<open>"mainnet"\<close> when the selected
  entry has no \<^verbatim>\<open>network\<close> field, and the value of the field otherwise.
\<close>

theorem network_default:
  assumes "json_body r = Inr (JObj body)"
    and "py_get (JObj body) ''accepts'' (JArr []) = Inr (JArr (before @ JObj entry # later))"
    and "\<forall>opt\<in>set before. \<exists>fs. opt = JObj fs \<and> map_of fs ''scheme'' \<noteq> Some (JStr ''solana'')"
    and "map_of entry ''scheme'' = Some (JStr ''solana'')"
    and "map_of entry ''token'' = Some tok"
    and "map_of entry ''amount'' = Some amt"
  shows "\<exists>info. parse_402_response r = Inr info
     \<and> (map_of entry ''network'' = None \<longrightarrow> network info = JStr ''mainnet'')
     \<and> (\<forall>v. map_of entry ''network'' = Some v \<longrightarrow> network info = v)"
proof -
  have "find_solana (before @ JObj entry # later) = find_solana (JObj entry # later)"
    using assms(3) by (rule find_solana_skip)
  with assms(1,2,4,5,6) show ?thesis
    by (simp add: parse_402_response_def split: option.splits)
qed

theorem network_default_witness:
  "(\<exists>info. parse_402_response
             (response_402 [ethereum_option, solana_option_plain, solana_option_devnet]) = Inr info
       \<and> network info = JStr ''mainnet'')
   \<and> (\<exists>info. parse_402_response (response_402 [solana_option_devnet, solana_option_plain]) = Inr info
       \<and> network info = JStr ''devnet'')"
proof -
  let ?r = "response_402 [ethereum_option, solana_option_plain, solana_option_devnet]"
  let ?entry = "[(''scheme'', JStr ''solana''), (''token'', JStr ''MINT_A''), (''amount'', JStr ''10'')]"
  let ?r' = "response_402 [solana_option_devnet, solana_option_plain]"
  let ?entry' = "[(''scheme'', JStr ''solana''), (''token'', JStr ''MINT_B''), (''amount'', JStr ''20''),
           (''network'', JStr ''devnet'')]"
  have h1: "json_body ?r =
      Inr (JObj [(''accepts'', JArr [ethereum_option, solana_option_plain, solana_option_devnet])])"
    by (simp add: response_402_def)
  have h2: "py_get (JObj [(''accepts'', JArr [ethereum_option, solana_option_plain, solana_option_devnet])])
      ''accepts'' (JArr []) = Inr (JArr ([ethereum_option] @ JObj ?entry # [solana_option_devnet]))"
    by (simp add: solana_option_plain_def)
  have h3: "\<forall>opt\<in>set [ethereum_option]. \<exists>fs. opt = JObj fs
      \<and> map_of fs ''scheme'' \<noteq> Some (JStr ''solana'')"
    by (simp add: option_defs)
  have h4: "map_of ?entry ''scheme'' = Some (JStr ''solana'')" by simp
  have h5: "map_of ?entry ''token'' = Some (JStr ''MINT_A'')" by simp
  have h6: "map_of ?entry ''amount'' = Some (JStr ''10'')" by simp
  have g1: "json_body ?r' = Inr (JObj [(''accepts'', JArr [solana_option_devnet, solana_option_plain])])"
    by (simp add: response_402_def)
  have g2: "py_get (JObj [(''accepts'', JArr [solana_option_devnet, solana_option_plain])])
      ''accepts'' (JArr []) = Inr (JArr ([] @ JObj ?entry' # [solana_option_plain]))"
    by (simp add: solana_option_devnet_def)
  have g3: "\<forall>opt\<in>set []. \<exists>fs. opt = JObj fs
      \<and> map_of fs ''scheme'' \<noteq> Some (JStr ''solana'')"
    by simp
  have g4: "map_of ?entry' ''scheme'' = Some (JStr ''solana'')" by simp
  have g5: "map_of ?entry' ''token'' = Some (JStr ''MINT_B'')" by simp
  have g6: "map_of ?entry' ''amount'' = Some (JStr ''20'')" by simp
  from network_default [OF h1 h2 h3 h4 h5 h6] network_default [OF g1 g2 g3 g4 g5 g6]
  show ?thesis by simp
qed

text \<open>
  Claim C10. When the body of the balance answer is an object without a
  \<^verbatim>\<open>balance\<close> field, the balance check returns 0, and for a positive required amount
  the next invocation of the call is the quote request of the exchange.
\<close>

theorem missing_balance_is_zero:
  assumes "http_get e t balance_url (Some (balance_params e tok)) None = Inr balance_response"
    and "json_body balance_response = Inr (JObj entry)"
    and "map_of entry ''balance'' = None"
    and "status_code r = 402" and "parse_402_response r = Inr info" and "token info = tok"
    and "py_int (amount info) = Inr required_amount"
    and "0 < required_amount"
  shows "check_balance e tok t =
           (Inr 0, t @ [HttpGet balance_url (Some (balance_params e tok)) None])
       \<and> take 2 (drop (length t) (snd (handle_402_response e r url t))) =
           [HttpGet balance_url (Some (balance_params e tok)) None,
            HttpGet quote_url (Some (quote_params (JStr SOL_MINT) tok required_amount)) None]"
proof -
  let ?B = "HttpGet balance_url (Some (balance_params e tok)) None"
  let ?Q = "HttpGet quote_url (Some (quote_params (JStr SOL_MINT) tok required_amount)) None"
  let ?h = "handle_402_response e r url t"
  have cb: "check_balance e tok t = (Inr 0, t @ [?B])"
    using assms(1-3) by (simp add: check_balance_def requests_get_def)
  obtain sw t2 where sw: "swap_tokens e (JStr SOL_MINT) tok required_amount (t @ [?B]) = (sw, t2)"
    by (cases "swap_tokens e (JStr SOL_MINT) tok required_amount (t @ [?B])")
  obtain evs where t2: "t2 = (t @ [?B]) @ ?Q # evs"
    using swap_tokens_shape [of e "JStr SOL_MINT" tok required_amount "t @ [?B]"] sw by auto
  have "snd ?h = t2 \<or> snd ?h = t2 @ [CreatePaymentTransaction info, SendTransaction None,
          HttpGet url None (Some (payment_headers ''transaction_signature'' info))]"
    using handle_insufficient [of r info e t 0 "t @ [?B]" required_amount sw t2 url]
      assms(4-8) cb sw
    by (auto simp: pay_and_retry_trace split: sum.splits)
  then have "take 2 (drop (length t) (snd ?h)) = [?B, ?Q]"
    using t2 by auto
  with cb show ?thesis by simp
qed

theorem missing_balance_is_zero_witness:
  "map_of [] ''balance'' = (None :: json option)
   \<and> py_int (amount example_info) = Inr 1000000
   \<and> (0 :: int) < 1000000
   \<and> check_balance no_balance_env (JStr ''TOKEN_MINT'') [] = (Inr 0, [example_balance_request])
   \<and> take 2 (snd (handle_402_response no_balance_env example_402 example_url [])) =
       [example_balance_request, example_quote_request]"
proof -
  have h1: "http_get no_balance_env [] balance_url
      (Some (balance_params no_balance_env (JStr ''TOKEN_MINT''))) None =
      Inr \<lparr>status_code = 200, json_body = Inr (JObj [])\<rparr>"
    by (simp add: run_defs)
  have h2: "json_body \<lparr>status_code = 200, json_body = Inr (JObj [])\<rparr> = Inr (JObj [])"
    by simp
  have h3: "map_of [] ''balance'' = (None :: json option)" by simp
  have h6: "token example_info = JStr ''TOKEN_MINT''" by (simp add: example_info_def)
  have h8: "(0 :: int) < 1000000" by simp
  from missing_balance_is_zero
         [OF h1 h2 h3 example_status example_parse h6 example_required h8, of example_url]
       example_required
  show ?thesis
    by (simp add: example_balance_request_def example_quote_request_def balance_url_def
        quote_url_def MOLTYDEX_API_def balance_params_def quote_params_def SOL_MINT_def
        no_balance_env_def example_env_def py_str_def str_nat.simps)
qed

end
